theory Spec2Isabelle
  imports Complex_Main "HOL-Library.Word"
begin

section \<open>Floating-point values\<close>

text \<open>
  The sensor computes in C++ \<^verbatim>\<open>double\<close> and stores three results in \<^verbatim>\<open>float\<close> fields.
  The model keeps the special values of IEEE 754 that the conversion chain can produce
  (signed zero, the two infinities, NaN) and computes on finite values exactly, in the
  reals: rounding, overflow and underflow of finite results are not modelled, and the
  \<^verbatim>\<open>float\<close> fields hold the same values as \<^verbatim>\<open>double\<close> ones.
  \<open>Fin 0\<close> is the positive zero, \<open>NZero\<close> the negative one; no operation returns
  \<open>Fin r\<close> for a negative zero.
\<close>

datatype fval = Fin real | NZero | PInf | NInf | NaN

definition sign_bit :: "fval \<Rightarrow> bool" where
  "sign_bit x = (case x of Fin r \<Rightarrow> r < 0 | NZero \<Rightarrow> True | PInf \<Rightarrow> False
                 | NInf \<Rightarrow> True | NaN \<Rightarrow> False)"

definition is_nan :: "fval \<Rightarrow> bool" where
  "is_nan x = (case x of NaN \<Rightarrow> True | _ \<Rightarrow> False)"

definition is_inf :: "fval \<Rightarrow> bool" where
  "is_inf x = (case x of PInf \<Rightarrow> True | NInf \<Rightarrow> True | _ \<Rightarrow> False)"

definition is_zero :: "fval \<Rightarrow> bool" where
  "is_zero x = (case x of Fin r \<Rightarrow> r = 0 | NZero \<Rightarrow> True | _ \<Rightarrow> False)"

definition is_finite :: "fval \<Rightarrow> bool" where
  "is_finite x = (case x of Fin r \<Rightarrow> True | NZero \<Rightarrow> True | _ \<Rightarrow> False)"

definition real_of :: "fval \<Rightarrow> real" where
  "real_of x = (case x of Fin r \<Rightarrow> r | _ \<Rightarrow> 0)"

definition zero_s :: "bool \<Rightarrow> fval" where
  "zero_s neg = (if neg then NZero else Fin 0)"

definition inf_s :: "bool \<Rightarrow> fval" where
  "inf_s neg = (if neg then NInf else PInf)"

definition fin :: "real \<Rightarrow> bool \<Rightarrow> fval" where
  \<comment> \<open>a finite result \<open>r\<close>; when it is zero, its sign is \<open>neg\<close>\<close>
  "fin r neg = (if r = 0 then zero_s neg else Fin r)"

definition fneg :: "fval \<Rightarrow> fval" where
  "fneg x = (case x of Fin r \<Rightarrow> (if r = 0 then NZero else Fin (- r)) | NZero \<Rightarrow> Fin 0
             | PInf \<Rightarrow> NInf | NInf \<Rightarrow> PInf | NaN \<Rightarrow> NaN)"

definition fadd :: "fval \<Rightarrow> fval \<Rightarrow> fval" where
  "fadd x y =
     (if is_nan x \<or> is_nan y then NaN
      else if is_inf x then (if is_inf y \<and> sign_bit x \<noteq> sign_bit y then NaN else x)
      else if is_inf y then y
      else fin (real_of x + real_of y) (sign_bit x \<and> sign_bit y))"

definition fsub :: "fval \<Rightarrow> fval \<Rightarrow> fval" where
  "fsub x y = fadd x (fneg y)"

definition fmul :: "fval \<Rightarrow> fval \<Rightarrow> fval" where
  "fmul x y =
     (if is_nan x \<or> is_nan y then NaN
      else if is_inf x \<or> is_inf y
        then (if is_zero x \<or> is_zero y then NaN else inf_s (sign_bit x \<noteq> sign_bit y))
      else fin (real_of x * real_of y) (sign_bit x \<noteq> sign_bit y))"

definition fdiv :: "fval \<Rightarrow> fval \<Rightarrow> fval" where
  "fdiv x y =
     (if is_nan x \<or> is_nan y then NaN
      else if is_inf x then (if is_inf y then NaN else inf_s (sign_bit x \<noteq> sign_bit y))
      else if is_inf y then zero_s (sign_bit x \<noteq> sign_bit y)
      else if is_zero y
        then (if is_zero x then NaN else inf_s (sign_bit x \<noteq> sign_bit y))
      else fin (real_of x / real_of y) (sign_bit x \<noteq> sign_bit y))"

definition flog :: "fval \<Rightarrow> fval" where
  \<comment> \<open>\<^verbatim>\<open>log\<close> of \<^verbatim>\<open>math.h\<close>: the natural logarithm\<close>
  "flog x = (case x of
       Fin r \<Rightarrow> (if r = 0 then NInf else if r < 0 then NaN else Fin (ln r))
     | NZero \<Rightarrow> NInf | PInf \<Rightarrow> PInf | NInf \<Rightarrow> NaN | NaN \<Rightarrow> NaN)"

definition fexp :: "fval \<Rightarrow> fval" where
  "fexp x = (case x of Fin r \<Rightarrow> Fin (exp r) | NZero \<Rightarrow> Fin 1 | PInf \<Rightarrow> PInf
             | NInf \<Rightarrow> Fin 0 | NaN \<Rightarrow> NaN)"

definition of_u16 :: "16 word \<Rightarrow> fval" where
  \<comment> \<open>the conversion of a \<^verbatim>\<open>uint16_t\<close> to \<^verbatim>\<open>double\<close>, which is exact\<close>
  "of_u16 w = Fin (real (unat w))"

section \<open>The data of the sensor\<close>

text \<open>\<^verbatim>\<open>SensorData.h\<close>. The members \<^verbatim>\<open>To\<close> and \<^verbatim>\<open>Tabs\<close> are \<^verbatim>\<open>const\<close> with the
  initialisers 25.0 and -273.15: they are constants of the model.\<close>

record SensorData =
  tCelsius :: fval
  tFahrenheit :: fval
  tKelvin :: fval
  Roo :: fval
  k :: fval
  v :: fval
  vin :: fval
  Rt :: fval
  analogValue :: "16 word"
  sensorPin :: "8 word"

definition To :: fval where
  "To = Fin 25"

definition Tabs :: fval where
  "Tabs = Fin (- 27315 / 100)"

text \<open>\<^verbatim>\<open>NTCSensor.h\<close>: the calibration parameters.\<close>

datatype adc_attenuation_t = ADC_0db | ADC_2_5db | ADC_6db | ADC_11db

record ParamsNTC =
  Rs :: "16 word"
  Ro :: "16 word"
  beta :: "16 word"

record ParamsADC =
  pin :: "8 word"
  ntcToGround :: bool
  Amax :: "16 word"
  att :: adc_attenuation_t
  Vcc :: fval
  Vref :: fval
  Voff :: fval

text \<open>
  A value printed on the serial monitor: the arguments of the \<^verbatim>\<open>printf\<close> of
  \<^verbatim>\<open>printParams\<close> and of \<^verbatim>\<open>printData\<close>, in their order, without the format.
\<close>

datatype serial_out =
    ParamsOut "16 word" "16 word" "16 word" fval fval fval
              "8 word" "16 word" bool fval fval fval
  | DataOut "16 word" fval fval fval fval fval fval fval
  | SettingsOut

text \<open>
  The object \<^verbatim>\<open>NTCSensor\<close> with the three structures its reference members \<^verbatim>\<open>_ntc\<close>,
  \<^verbatim>\<open>_adc\<close> and \<^verbatim>\<open>_sData\<close> point to, and the two devices it uses: \<open>adcReads\<close> counts
  the calls of \<^verbatim>\<open>analogRead\<close> made so far, \<open>serial\<close> is what was printed so far.
\<close>

record NTCSensor =
  ntc :: ParamsNTC
  adc :: ParamsADC
  sData :: SensorData
  adcReads :: nat
  serial :: "serial_out list"

section \<open>The operations of the sensor\<close>

text \<open>
  \<^verbatim>\<open>NTCSensor.cpp\<close>. The environment \<open>env\<close> gives the sample that the \<open>n\<close>-th call of
  \<^verbatim>\<open>analogRead\<close> on the sensor's pin returns (\<open>n\<close> from 0).
\<close>

definition compute_Roo :: "ParamsNTC \<Rightarrow> fval" where
  \<comment> \<open>\<^verbatim>\<open>_ntc.Ro * exp(-(double)_ntc.beta / (_sData.To - _sData.Tabs))\<close>\<close>
  "compute_Roo p = fmul (of_u16 (Ro p)) (fexp (fdiv (fneg (of_u16 (beta p))) (fsub To Tabs)))"

definition readSensor :: "(nat \<Rightarrow> 16 word) \<Rightarrow> NTCSensor \<Rightarrow> NTCSensor" where
  "readSensor env s =
     (let d0 = (sData s)\<lparr>analogValue := env (adcReads s)\<rparr>;
          d1 = d0\<lparr>v := fdiv (fsub (Vref (adc s)) (Voff (adc s))) (of_u16 (Amax (adc s)))\<rparr>;
          d2 = d1\<lparr>vin := fadd (fmul (of_u16 (analogValue d1)) (v d1)) (Voff (adc s))\<rparr>;
          d3 = d2\<lparr>k := fdiv (vin d2) (fsub (Vcc (adc s)) (vin d2))\<rparr>;
          d4 = (if \<not> ntcToGround (adc s) then d3\<lparr>k := fdiv (Fin 1) (k d3)\<rparr> else d3);
          d5 = d4\<lparr>Rt := fmul (of_u16 (Rs (ntc s))) (k d4)\<rparr>;
          d6 = d5\<lparr>tKelvin := fdiv (of_u16 (beta (ntc s))) (flog (fdiv (Rt d5) (Roo d5)))\<rparr>;
          d7 = d6\<lparr>tCelsius := fadd (tKelvin d6) Tabs\<rparr>;
          d8 = d7\<lparr>tFahrenheit := fadd (fdiv (fmul (tCelsius d7) (Fin 9)) (Fin 5)) (Fin 32)\<rparr>
      in s\<lparr>sData := d8, adcReads := adcReads s + 1\<rparr>)"

definition NTCSensor_new :: "ParamsNTC \<Rightarrow> ParamsADC \<Rightarrow> SensorData \<Rightarrow> nat \<Rightarrow> serial_out list \<Rightarrow> NTCSensor" where
  \<comment> \<open>the constructor; \<^verbatim>\<open>pinMode\<close> and \<^verbatim>\<open>analogSetAttenuation\<close> configure the pin and
      change nothing of the model\<close>
  "NTCSensor_new p q d n out =
     \<lparr>ntc = p, adc = q, sData = d\<lparr>Roo := compute_Roo p\<rparr>, adcReads = n, serial = out\<rparr>"

definition NTCSensor_setup :: "(nat \<Rightarrow> 16 word) \<Rightarrow> NTCSensor \<Rightarrow> NTCSensor" where
  \<comment> \<open>\<^verbatim>\<open>NTCSensor::setup\<close>; \<^verbatim>\<open>delay(1000)\<close> waits and changes nothing of the model\<close>
  "NTCSensor_setup env s =
     (let d0 = (sData s)\<lparr>sensorPin := pin (adc s)\<rparr>;
          d1 = d0\<lparr>Roo := compute_Roo (ntc s)\<rparr>
      in readSensor env (s\<lparr>sData := d1\<rparr>))"

definition getCelsius :: "NTCSensor \<Rightarrow> fval \<times> NTCSensor" where
  "getCelsius s = (tCelsius (sData s), s)"

definition getDataReference :: "NTCSensor \<Rightarrow> SensorData" where
  "getDataReference s = sData s"

definition setNTCbeta :: "16 word \<Rightarrow> NTCSensor \<Rightarrow> NTCSensor" where
  "setNTCbeta b s = s\<lparr>ntc := (ntc s)\<lparr>beta := b\<rparr>\<rparr>"

definition printParams :: "NTCSensor \<Rightarrow> NTCSensor" where
  "printParams s =
     s\<lparr>serial := serial s @
        [ParamsOut (beta (ntc s)) (Ro (ntc s)) (Rs (ntc s)) (Roo (sData s)) To Tabs
           (pin (adc s)) (Amax (adc s)) (ntcToGround (adc s))
           (Vcc (adc s)) (Vref (adc s)) (Voff (adc s))]\<rparr>"

definition printData :: "(nat \<Rightarrow> 16 word) \<Rightarrow> NTCSensor \<Rightarrow> NTCSensor" where
  "printData env s =
     (let s1 = readSensor env s; d = sData s1
      in s1\<lparr>serial := serial s1 @
           [DataOut (analogValue d) (v d) (vin d) (k d) (Rt d)
              (tCelsius d) (tFahrenheit d) (tKelvin d)]\<rparr>)"

text \<open>A sequence of calls of the two operations that a poll makes on the sensor.\<close>

datatype sensor_call = ReadSensor | GetCelsius

definition call :: "(nat \<Rightarrow> 16 word) \<Rightarrow> sensor_call \<Rightarrow> NTCSensor \<Rightarrow> NTCSensor" where
  "call env c s = (case c of ReadSensor \<Rightarrow> readSensor env s | GetCelsius \<Rightarrow> snd (getCelsius s))"

fun run_calls :: "(nat \<Rightarrow> 16 word) \<Rightarrow> sensor_call list \<Rightarrow> NTCSensor \<Rightarrow> NTCSensor" where
  "run_calls env [] s = s"
| "run_calls env (c # cs) s = run_calls env cs (call env c s)"

section \<open>The configuration of the program\<close>

text \<open>
  \<^verbatim>\<open>main.cpp\<close>: the parameters of the sensor that the program uses (\<^verbatim>\<open>PIN_ADC\<close> is
  GPIO 34) and the global \<^verbatim>\<open>sensorData\<close>, an object of static storage duration whose
  members without an initialiser are zero when the program starts.
\<close>

definition ntcRs10k :: ParamsNTC where
  "ntcRs10k = \<lparr>Rs = 10000, Ro = 10000, beta = 2800\<rparr>"

definition adcEsp32_11 :: ParamsADC where
  "adcEsp32_11 = \<lparr>pin = 34, ntcToGround = True, Amax = 4095, att = ADC_11db,
                   Vcc = Fin 3300, Vref = Fin 3200, Voff = Fin 130\<rparr>"

definition sensorData :: SensorData where
  "sensorData = \<lparr>tCelsius = Fin 0, tFahrenheit = Fin 0, tKelvin = Fin 0, Roo = Fin 0,
                  k = Fin 0, v = Fin 0, vin = Fin 0, Rt = Fin 0, analogValue = 0,
                  sensorPin = 0\<rparr>"

text \<open>
  Test inputs: an ADC whose step is one millivolt (so that a sample is the voltage in mV)
  on a supply of 3300 mV, a divider with the NTC wired to the supply, an NTC with a beta
  of zero, and a pin that gives the same sample at every read.
\<close>

definition adc_1mV :: ParamsADC where
  "adc_1mV = \<lparr>pin = 34, ntcToGround = True, Amax = 4095, att = ADC_11db,
               Vcc = Fin 3300, Vref = Fin 4095, Voff = Fin 0\<rparr>"

definition adc_1mV_toVcc :: ParamsADC where
  "adc_1mV_toVcc = adc_1mV\<lparr>ntcToGround := False\<rparr>"

definition ntc_beta0 :: ParamsNTC where
  "ntc_beta0 = \<lparr>Rs = 10000, Ro = 10000, beta = 0\<rparr>"

definition steady :: "16 word \<Rightarrow> nat \<Rightarrow> 16 word" where
  "steady a n = a"

definition sensor_beta0 :: NTCSensor where
  \<comment> \<open>the sensor constructed on the NTC with a beta of zero\<close>
  "sensor_beta0 = NTCSensor_new ntc_beta0 adc_1mV sensorData 0 []"

section \<open>Comparison of floating-point values\<close>

definition fless :: "fval \<Rightarrow> fval \<Rightarrow> bool" where
  \<comment> \<open>\<^verbatim>\<open>x < y\<close>: false when an operand is NaN\<close>
  "fless x y = (case x of
       NaN \<Rightarrow> False | PInf \<Rightarrow> False
     | NInf \<Rightarrow> (case y of NaN \<Rightarrow> False | NInf \<Rightarrow> False | _ \<Rightarrow> True)
     | _ \<Rightarrow> (case y of NaN \<Rightarrow> False | NInf \<Rightarrow> False | PInf \<Rightarrow> True
              | _ \<Rightarrow> real_of x < real_of y))"

definition fle :: "fval \<Rightarrow> fval \<Rightarrow> bool" where
  \<comment> \<open>\<^verbatim>\<open>x <= y\<close>: false when an operand is NaN\<close>
  "fle x y = (case x of
       NaN \<Rightarrow> False
     | PInf \<Rightarrow> (case y of PInf \<Rightarrow> True | _ \<Rightarrow> False)
     | NInf \<Rightarrow> (case y of NaN \<Rightarrow> False | _ \<Rightarrow> True)
     | _ \<Rightarrow> (case y of NaN \<Rightarrow> False | NInf \<Rightarrow> False | PInf \<Rightarrow> True
              | _ \<Rightarrow> real_of x \<le> real_of y))"

section \<open>The thermostat and the program\<close>

text \<open>
  Modelled from the spec: the class \<^verbatim>\<open>Thermostat\<close> (\<^verbatim>\<open>Thermostat.h\<close> and its
  implementation) is not among the sources; \<^verbatim>\<open>main.cpp\<close> constructs it from the sensor
  and three callbacks and calls its \<^verbatim>\<open>setup\<close>, \<^verbatim>\<open>enable\<close>, \<^verbatim>\<open>loop\<close> and
  \<^verbatim>\<open>printSettings\<close>. The controller below is the state machine of section 4.3 of the
  specification: the states Disabled, Armed-Idle and Armed-Heating, the two limits, the
  poll interval and the time of the last poll (in milliseconds of a clock that does not
  wrap).
\<close>

datatype tstate = Disabled | ArmedIdle | ArmedHeating

datatype callback = OnTick | OnBelowLowerLimit | OnAboveUpperLimit

record Thermostat =
  tstate :: tstate
  lowerLimit :: fval
  upperLimit :: fval
  interval :: nat
  lastPoll :: nat

text \<open>
  The program of \<^verbatim>\<open>main.cpp\<close>: the sensor, the thermostat, the global \<^verbatim>\<open>heatingIsOn\<close>,
  the values written to \<^verbatim>\<open>PIN_THERMOSTAT\<close> by \<^verbatim>\<open>digitalWrite\<close> so far (\<open>True\<close> is
  \<^verbatim>\<open>HIGH\<close>), and the callbacks that the thermostat has invoked so far.
\<close>

record program =
  sensor :: NTCSensor
  thermostat :: Thermostat
  heatingIsOn :: bool
  heaterPin :: "bool list"
  calls :: "callback list"

definition printSettings :: "program \<Rightarrow> program" where
  \<comment> \<open>Modelled from the spec: \<^verbatim>\<open>Thermostat::printSettings\<close> is not among the sources; a
      diagnostic print, which changes the serial output only\<close>
  "printSettings p = p\<lparr>sensor := (sensor p)\<lparr>serial := serial (sensor p) @ [SettingsOut]\<rparr>\<rparr>"

definition processData :: "(nat \<Rightarrow> 16 word) \<Rightarrow> program \<Rightarrow> program" where
  \<comment> \<open>\<^verbatim>\<open>main.cpp\<close>: \<^verbatim>\<open>sensor.readSensor(); sensor.printParams(); sensor.printData();
      thermostat.printSettings();\<close>\<close>
  "processData env p =
     (let p1 = p\<lparr>sensor := readSensor env (sensor p)\<rparr>;
          p2 = p1\<lparr>sensor := printParams (sensor p1)\<rparr>;
          p3 = p2\<lparr>sensor := printData env (sensor p2)\<rparr>
      in printSettings p3)"

definition turnHeatingOn :: "program \<Rightarrow> program" where
  "turnHeatingOn p =
     (if \<not> heatingIsOn p then p\<lparr>heaterPin := heaterPin p @ [True], heatingIsOn := True\<rparr>
      else p)"

definition turnHeatingOff :: "program \<Rightarrow> program" where
  "turnHeatingOff p =
     (if heatingIsOn p then p\<lparr>heaterPin := heaterPin p @ [False], heatingIsOn := False\<rparr>
      else p)"

definition enable :: "program \<Rightarrow> program" where
  \<comment> \<open>Modelled from the spec: Disabled to Armed-Idle on \<^verbatim>\<open>enable()\<close>\<close>
  "enable p = (case tstate (thermostat p) of
       Disabled \<Rightarrow> p\<lparr>thermostat := (thermostat p)\<lparr>tstate := ArmedIdle\<rparr>\<rparr>
     | _ \<Rightarrow> p)"

definition disable :: "program \<Rightarrow> program" where
  \<comment> \<open>Modelled from the spec: any state to Disabled on \<^verbatim>\<open>disable()\<close>\<close>
  "disable p = p\<lparr>thermostat := (thermostat p)\<lparr>tstate := Disabled\<rparr>\<rparr>"

definition hysteresis :: "fval \<Rightarrow> program \<Rightarrow> program" where
  \<comment> \<open>Modelled from the spec: the transition that a poll which observes the temperature
      \<open>t\<close> makes. Armed-Idle to Armed-Heating when \<open>t < lowerLimit\<close>, with the callback
      that turns the heating on; Armed-Heating to Armed-Idle when \<open>t \<ge> upperLimit\<close>, with
      the callback that turns it off; no callback otherwise, and none while disabled.\<close>
  "hysteresis t p = (case tstate (thermostat p) of
       Disabled \<Rightarrow> p
     | ArmedIdle \<Rightarrow>
         (if fless t (lowerLimit (thermostat p))
          then turnHeatingOn (p\<lparr>thermostat := (thermostat p)\<lparr>tstate := ArmedHeating\<rparr>,
                                calls := calls p @ [OnBelowLowerLimit]\<rparr>)
          else p)
     | ArmedHeating \<Rightarrow>
         (if fle (upperLimit (thermostat p)) t
          then turnHeatingOff (p\<lparr>thermostat := (thermostat p)\<lparr>tstate := ArmedIdle\<rparr>,
                                 calls := calls p @ [OnAboveUpperLimit]\<rparr>)
          else p))"

definition Thermostat_loop :: "(nat \<Rightarrow> 16 word) \<Rightarrow> nat \<Rightarrow> program \<Rightarrow> program" where
  \<comment> \<open>Modelled from the spec: \<^verbatim>\<open>Thermostat::loop\<close>, the tick that \<^verbatim>\<open>loop()\<close> of
      \<^verbatim>\<open>main.cpp\<close> calls, at the time \<open>now\<close>. When the time since the last poll has reached
      the interval: one \<^verbatim>\<open>readSensor\<close>, the data callback (\<^verbatim>\<open>processData\<close> in this
      program), the hysteresis transition on \<^verbatim>\<open>getCelsius()\<close>, and the time of the last
      poll is reset. Otherwise nothing.\<close>
  "Thermostat_loop env now p =
     (if now - lastPoll (thermostat p) < interval (thermostat p) then p
      else
        (let p1 = p\<lparr>sensor := readSensor env (sensor p)\<rparr>;
             p2 = processData env (p1\<lparr>calls := calls p1 @ [OnTick]\<rparr>);
             p3 = hysteresis (fst (getCelsius (sensor p2))) p2
         in p3\<lparr>thermostat := (thermostat p3)\<lparr>lastPoll := now\<rparr>\<rparr>))"

fun run_ticks :: "(nat \<Rightarrow> 16 word) \<Rightarrow> nat list \<Rightarrow> program \<Rightarrow> program" where
  \<comment> \<open>the calls of the tick at the times of the list, in their order\<close>
  "run_ticks env [] p = p"
| "run_ticks env (t # ts) p = run_ticks env ts (Thermostat_loop env t p)"

fun polls :: "fval list \<Rightarrow> program \<Rightarrow> program" where
  \<comment> \<open>the polls that observe the temperatures of the list, in their order\<close>
  "polls [] p = p"
| "polls (t # ts) p = polls ts (hysteresis t p)"

definition thermostat0 :: Thermostat where
  \<comment> \<open>a test input: armed, idle, limits of 18 and 22 degrees, a poll every second\<close>
  "thermostat0 = \<lparr>tstate = ArmedIdle, lowerLimit = Fin 18, upperLimit = Fin 22,
                   interval = 1000, lastPoll = 0\<rparr>"

definition program0 :: program where
  \<comment> \<open>the program of \<^verbatim>\<open>main.cpp\<close> when it starts, with the thermostat above\<close>
  "program0 = \<lparr>sensor = NTCSensor_new ntcRs10k adcEsp32_11 sensorData 0 [],
                thermostat = thermostat0, heatingIsOn = False, heaterPin = [], calls = []\<rparr>"

definition ticks99 :: "nat list" where
  \<comment> \<open>a test input: 99 times, one per millisecond from 1001\<close>
  "ticks99 = [1001..<1100]"

section \<open>The conversion chain\<close>

lemma sData_readSensor:
  "sData (readSensor env s) =
     (let a = env (adcReads s);
          v' = fdiv (fsub (Vref (adc s)) (Voff (adc s))) (of_u16 (Amax (adc s)));
          vin' = fadd (fmul (of_u16 a) v') (Voff (adc s));
          k0 = fdiv vin' (fsub (Vcc (adc s)) vin');
          k' = (if ntcToGround (adc s) then k0 else fdiv (Fin 1) k0);
          Rt' = fmul (of_u16 (Rs (ntc s))) k';
          tK = fdiv (of_u16 (beta (ntc s))) (flog (fdiv Rt' (Roo (sData s))));
          tC = fadd tK Tabs
      in (sData s)\<lparr>analogValue := a, v := v', vin := vin', k := k', Rt := Rt',
            tKelvin := tK, tCelsius := tC,
            tFahrenheit := fadd (fdiv (fmul tC (Fin 9)) (Fin 5)) (Fin 32)\<rparr>)"
  by (simp add: readSensor_def Let_def)

text \<open>
  C1. One call of \<^verbatim>\<open>readSensor\<close> stores, for every sample and every parameter set, the
  values of the conversion chain: the sample, \<open>v = (Vref - Voff) / Amax\<close>,
  \<open>vin = raw * v + Voff\<close>, \<open>k = vin / (Vcc - vin)\<close> replaced by \<open>1 / k\<close> exactly when
  \<open>ntcToGround\<close> is false, \<open>Rt = Rs * k\<close>, \<open>tKelvin = beta / ln (Rt / Roo)\<close>,
  \<open>tCelsius = tKelvin + Tabs\<close> and \<open>tFahrenheit = tCelsius * 9 / 5 + 32\<close>, each computed
  from the values stored before it; \<open>Roo\<close> and the pin are left as they were.
\<close>

theorem readSensor_stores_chain:
  "(let d = sData (readSensor env s) in
      analogValue d = env (adcReads s)
    \<and> v d = fdiv (fsub (Vref (adc s)) (Voff (adc s))) (of_u16 (Amax (adc s)))
    \<and> vin d = fadd (fmul (of_u16 (analogValue d)) (v d)) (Voff (adc s))
    \<and> k d = (if ntcToGround (adc s) then fdiv (vin d) (fsub (Vcc (adc s)) (vin d))
             else fdiv (Fin 1) (fdiv (vin d) (fsub (Vcc (adc s)) (vin d))))
    \<and> Rt d = fmul (of_u16 (Rs (ntc s))) (k d)
    \<and> tKelvin d = fdiv (of_u16 (beta (ntc s))) (flog (fdiv (Rt d) (Roo (sData s))))
    \<and> tCelsius d = fadd (tKelvin d) Tabs
    \<and> tFahrenheit d = fadd (fdiv (fmul (tCelsius d) (Fin 9)) (Fin 5)) (Fin 32)
    \<and> Roo d = Roo (sData s) \<and> sensorPin d = sensorPin (sData s))"
  by (simp add: sData_readSensor Let_def)

section \<open>Arithmetic on finite values\<close>

lemma fadd_Fin: "fadd (Fin a) (Fin b) = Fin (a + b)"
  by (auto simp: fadd_def fin_def zero_s_def is_nan_def is_inf_def real_of_def sign_bit_def)

lemma fsub_Fin: "fsub (Fin a) (Fin b) = Fin (a - b)"
  by (auto simp: fsub_def fneg_def fadd_def fin_def zero_s_def is_nan_def is_inf_def
      real_of_def sign_bit_def)

lemma fmul_Fin: "a \<noteq> 0 \<Longrightarrow> b \<noteq> 0 \<Longrightarrow> fmul (Fin a) (Fin b) = Fin (a * b)"
  by (simp add: fmul_def fin_def is_nan_def is_inf_def real_of_def)

lemma fmul_Fin_nonneg: "0 \<le> a \<Longrightarrow> 0 \<le> b \<Longrightarrow> fmul (Fin a) (Fin b) = Fin (a * b)"
  by (auto simp: fmul_def fin_def zero_s_def is_nan_def is_inf_def real_of_def sign_bit_def)

lemma fdiv_Fin: "a \<noteq> 0 \<Longrightarrow> b \<noteq> 0 \<Longrightarrow> fdiv (Fin a) (Fin b) = Fin (a / b)"
  by (simp add: fdiv_def fin_def is_nan_def is_inf_def is_zero_def real_of_def)

lemma fdiv_Fin_nonneg: "0 \<le> a \<Longrightarrow> 0 < b \<Longrightarrow> fdiv (Fin a) (Fin b) = Fin (a / b)"
  by (auto simp: fdiv_def fin_def zero_s_def is_nan_def is_inf_def is_zero_def real_of_def
      sign_bit_def)

lemma fdiv_by_zero: "a \<noteq> 0 \<Longrightarrow> fdiv (Fin a) (Fin 0) = (if a < 0 then NInf else PInf)"
  by (simp add: fdiv_def inf_s_def is_nan_def is_inf_def is_zero_def sign_bit_def)

lemma fdiv_zero_zero: "fdiv (Fin 0) (Fin 0) = NaN"
  by (simp add: fdiv_def is_nan_def is_inf_def is_zero_def)

lemma flog_Fin: "0 < r \<Longrightarrow> flog (Fin r) = Fin (ln r)"
  by (simp add: flog_def)

lemma u16_nonneg: "0 \<le> (unsigned (w :: 16 word) :: real)"
  using of_nat_0_le_iff [of "unat w", where ?'a = real] by (simp del: of_nat_0_le_iff)

lemma u16_pos: "w \<noteq> 0 \<Longrightarrow> 0 < (unsigned (w :: 16 word) :: real)"
proof -
  assume "w \<noteq> 0"
  then have "0 < unat w" by (simp add: unat_gt_0)
  then have "0 < real (unat w)" by (simp only: of_nat_0_less_iff)
  then show ?thesis by simp
qed

section \<open>The resistance for an infinite temperature\<close>

lemma Roo_formula:
  assumes "0 \<le> r" "0 \<le> b" "0 < c"
  shows "fmul (Fin r) (fexp (fdiv (fneg (Fin b)) (Fin c))) = Fin (r * exp (- b / c))"
proof (cases "b = 0")
  case True
  have "fdiv (fneg (Fin b)) (Fin c) = NZero"
    using assms True
    by (simp add: fneg_def fdiv_def is_nan_def is_inf_def is_zero_def fin_def zero_s_def
        sign_bit_def real_of_def)
  then show ?thesis
    using assms True by (simp add: fexp_def fmul_Fin_nonneg)
next
  case False
  then have "fdiv (fneg (Fin b)) (Fin c) = Fin (- b / c)"
    using assms by (simp add: fneg_def fdiv_Fin)
  then show ?thesis
    using assms by (simp add: fexp_def fmul_Fin_nonneg)
qed

lemma compute_Roo_eq:
  "compute_Roo p =
     Fin (real (unat (Ro p)) * exp (- real (unat (beta p)) / (real_of To - real_of Tabs)))"
  using Roo_formula [of "real (unat (Ro p))" "real (unat (beta p))" "real_of To - real_of Tabs"]
  by (simp add: compute_Roo_def of_u16_def To_def Tabs_def real_of_def u16_nonneg fsub_Fin)

lemma Roo_readSensor: "Roo (sData (readSensor env s)) = Roo (sData s)"
  by (simp add: sData_readSensor Let_def)

lemma ntc_readSensor: "ntc (readSensor env s) = ntc s"
  by (simp add: readSensor_def Let_def)

lemma adc_readSensor: "adc (readSensor env s) = adc s"
  by (simp add: readSensor_def Let_def)

lemma adcReads_readSensor: "adcReads (readSensor env s) = adcReads s + 1"
  by (simp add: readSensor_def Let_def)

lemma serial_readSensor: "serial (readSensor env s) = serial s"
  by (simp add: readSensor_def Let_def)

lemma Roo_setup: "Roo (sData (NTCSensor_setup env s)) = compute_Roo (ntc s)"
  by (simp add: NTCSensor_setup_def Let_def Roo_readSensor)

lemma Roo_run_calls: "Roo (sData (run_calls env cs s)) = Roo (sData s)"
  by (induction cs arbitrary: s) (simp_all add: call_def Roo_readSensor getCelsius_def split: sensor_call.splits)

lemma ntc_run_calls: "ntc (run_calls env cs s) = ntc s"
  by (induction cs arbitrary: s) (simp_all add: call_def ntc_readSensor getCelsius_def split: sensor_call.splits)

text \<open>
  C6. \<open>Roo\<close> is \<open>Ro * exp (- beta / (To - Tabs))\<close> after the constructor and again after
  \<^verbatim>\<open>setup\<close>, and no sequence of calls of \<^verbatim>\<open>readSensor\<close> and \<^verbatim>\<open>getCelsius\<close> after
  \<^verbatim>\<open>setup\<close> changes it: it stays the value computed by \<^verbatim>\<open>setup\<close>.
\<close>

theorem Roo_computed_once:
  "Roo (sData (NTCSensor_new p q d n out)) =
     Fin (real (unat (Ro p)) * exp (- real (unat (beta p)) / (real_of To - real_of Tabs)))
   \<and> Roo (sData (NTCSensor_setup env s)) =
     Fin (real (unat (Ro (ntc s))) *
          exp (- real (unat (beta (ntc s))) / (real_of To - real_of Tabs)))
   \<and> Roo (sData (run_calls env' cs (NTCSensor_setup env s))) =
     Roo (sData (NTCSensor_setup env s))
   \<and> Roo (sData (readSensor env s)) = Roo (sData s)
   \<and> Roo (sData (snd (getCelsius s))) = Roo (sData s)"
  by (simp add: NTCSensor_new_def Roo_setup Roo_run_calls Roo_readSensor getCelsius_def
      compute_Roo_eq)

section \<open>Reading the stored temperature\<close>

text \<open>
  C7. \<^verbatim>\<open>getCelsius\<close> returns the Celsius value stored in the record and changes nothing
  (no sample is taken, nothing is printed, the record is as before); so do any number
  \<open>n\<close> of calls in a row, each of which returns the same value.
\<close>

theorem getCelsius_pure:
  "fst (getCelsius s) = tCelsius (sData s) \<and> snd (getCelsius s) = s
   \<and> ((snd \<circ> getCelsius) ^^ n) s = s
   \<and> fst (getCelsius (((snd \<circ> getCelsius) ^^ n) s)) = tCelsius (sData s)
   \<and> adcReads (((snd \<circ> getCelsius) ^^ n) s) = adcReads s"
proof -
  have "((snd \<circ> getCelsius) ^^ n) s = s"
    by (induction n) (simp_all add: getCelsius_def)
  then show ?thesis by (simp add: getCelsius_def)
qed

section \<open>The calibration point\<close>

lemma calibration_point:
  assumes Ro: "Ro (ntc s) \<noteq> 0" and b: "beta (ntc s) \<noteq> 0"
    and Roo: "Roo (sData s) = compute_Roo (ntc s)"
    and Rt: "Rt (sData (readSensor env s)) = of_u16 (Ro (ntc s))"
  shows "tKelvin (sData (readSensor env s)) = Fin (real_of To - real_of Tabs)"
proof -
  define r where "r = real (unat (Ro (ntc s)))"
  define b where "b = real (unat (beta (ntc s)))"
  define c where "c = real_of To - real_of Tabs"
  have r: "0 < r" using Ro by (simp add: r_def u16_pos)
  have b: "0 < b" using b by (simp add: b_def u16_pos)
  have c: "0 < c" by (simp add: c_def To_def Tabs_def real_of_def)
  have "fdiv (Rt (sData (readSensor env s))) (Roo (sData s)) =
          fdiv (Fin r) (Fin (r * exp (- b / c)))"
    by (simp add: Rt Roo compute_Roo_eq of_u16_def r_def b_def c_def)
  also have "\<dots> = Fin (exp (b / c))"
    using r by (simp add: fdiv_Fin exp_minus field_simps)
  finally have "flog (fdiv (Rt (sData (readSensor env s))) (Roo (sData s))) = Fin (b / c)"
    by (simp add: flog_Fin)
  then have "tKelvin (sData (readSensor env s)) = fdiv (Fin b) (Fin (b / c))"
    by (simp add: sData_readSensor Let_def of_u16_def b_def)
  also have "\<dots> = Fin c"
    using b c by (simp add: fdiv_Fin)
  finally show ?thesis by (simp add: c_def)
qed

lemma celsius_of_kelvin:
  "tCelsius (sData (readSensor env s)) = fadd (tKelvin (sData (readSensor env s))) Tabs"
  by (simp add: sData_readSensor Let_def)

lemma fahrenheit_of_celsius:
  "tFahrenheit (sData (readSensor env s)) =
     fadd (fdiv (fmul (tCelsius (sData (readSensor env s))) (Fin 9)) (Fin 5)) (Fin 32)"
  by (simp add: sData_readSensor Let_def)

lemma calibration_point_celsius:
  assumes "Ro (ntc s) \<noteq> 0" "beta (ntc s) \<noteq> 0" "Roo (sData s) = compute_Roo (ntc s)"
    "Rt (sData (readSensor env s)) = of_u16 (Ro (ntc s))"
  shows "tCelsius (sData (readSensor env s)) = Fin 25"
  using calibration_point [OF assms]
  by (simp add: celsius_of_kelvin To_def Tabs_def real_of_def fadd_Fin)

lemma Rt_at_half_supply:
  "Rt (sData (readSensor (steady 1650) (NTCSensor_new ntcRs10k adc_1mV d n out))) = Fin 10000"
  by (simp add: sData_readSensor Let_def NTCSensor_new_def ntcRs10k_def adc_1mV_def
      steady_def of_u16_def fsub_Fin fadd_Fin fmul_Fin fdiv_Fin)

text \<open>
  C8. At the calibration point the conversion gives 25 degrees Celsius: when \<open>Roo\<close> is the
  value that the constructor and \<^verbatim>\<open>setup\<close> compute from the parameters, \<open>Ro\<close> and \<open>beta\<close>
  are not zero, and a sample gives \<open>Rt = Ro\<close>, then \<^verbatim>\<open>readSensor\<close> stores 298.15 K,
  25 degrees Celsius (within 1e-3, and exactly so) and 77 degrees Fahrenheit.
\<close>

theorem calibration_round_trip:
  assumes "Ro (ntc s) \<noteq> 0" "beta (ntc s) \<noteq> 0" "Roo (sData s) = compute_Roo (ntc s)"
    "Rt (sData (readSensor env s)) = of_u16 (Ro (ntc s))"
  shows "tCelsius (sData (readSensor env s)) = Fin 25
    \<and> \<bar>real_of (tCelsius (sData (readSensor env s))) - 25\<bar> \<le> 1 / 1000
    \<and> tKelvin (sData (readSensor env s)) = Fin (29815 / 100)
    \<and> tFahrenheit (sData (readSensor env s)) = Fin 77"
proof -
  have K: "tKelvin (sData (readSensor env s)) = Fin (29815 / 100)"
    using calibration_point [OF assms] by (simp add: To_def Tabs_def real_of_def)
  have C: "tCelsius (sData (readSensor env s)) = Fin 25"
    by (rule calibration_point_celsius [OF assms])
  have F: "tFahrenheit (sData (readSensor env s)) = Fin 77"
    by (simp add: fahrenheit_of_celsius C fmul_Fin fdiv_Fin fadd_Fin)
  show ?thesis by (simp add: K C F real_of_def)
qed

theorem calibration_round_trip_witness:
  "tCelsius (sData (readSensor (steady 1650) (NTCSensor_new ntcRs10k adc_1mV sensorData 0 [])))
     = Fin 25
   \<and> Rt (sData (readSensor (steady 1650) (NTCSensor_new ntcRs10k adc_1mV sensorData 0 [])))
     = of_u16 (Ro ntcRs10k)"
proof -
  let ?s = "NTCSensor_new ntcRs10k adc_1mV sensorData 0 []"
  have 1: "Ro (ntc ?s) \<noteq> 0" and 2: "beta (ntc ?s) \<noteq> 0"
    by (simp_all add: NTCSensor_new_def ntcRs10k_def)
  have 3: "Roo (sData ?s) = compute_Roo (ntc ?s)"
    by (simp add: NTCSensor_new_def)
  have n: "ntc ?s = ntcRs10k"
    by (simp add: NTCSensor_new_def)
  have "of_u16 (Ro (ntc ?s)) = Fin 10000"
    by (simp add: NTCSensor_new_def ntcRs10k_def of_u16_def)
  then have 4: "Rt (sData (readSensor (steady 1650) ?s)) = of_u16 (Ro (ntc ?s))"
    by (simp only: Rt_at_half_supply)
  from calibration_round_trip [OF 1 2 3 4] 4 show ?thesis
    by (simp add: n)
qed

section \<open>Printing and the beta parameter\<close>

lemma sData_printData: "sData (printData env s) = sData (readSensor env s)"
  by (simp add: printData_def Let_def)

lemma adcReads_printData: "adcReads (printData env s) = adcReads s + 1"
  by (simp add: printData_def Let_def adcReads_readSensor)

lemma celsius_after_first_print:
  "tCelsius (sData (printData (steady 1650) (NTCSensor_new ntcRs10k adc_1mV sensorData 0 [])))
     = Fin 25"
proof -
  let ?s = "NTCSensor_new ntcRs10k adc_1mV sensorData 0 []"
  have 1: "Ro (ntc ?s) \<noteq> 0" and 2: "beta (ntc ?s) \<noteq> 0"
    by (simp_all add: NTCSensor_new_def ntcRs10k_def)
  have 3: "Roo (sData ?s) = compute_Roo (ntc ?s)"
    by (simp add: NTCSensor_new_def)
  have "of_u16 (Ro (ntc ?s)) = Fin 10000"
    by (simp add: NTCSensor_new_def ntcRs10k_def of_u16_def)
  then have 4: "Rt (sData (readSensor (steady 1650) ?s)) = of_u16 (Ro (ntc ?s))"
    by (simp only: Rt_at_half_supply)
  show ?thesis
    by (simp only: sData_printData calibration_point_celsius [OF 1 2 3 4])
qed

text \<open>
  C9. \<^verbatim>\<open>printData\<close> first calls \<^verbatim>\<open>readSensor\<close>: every call takes one more sample from the
  ADC, leaves the record that \<^verbatim>\<open>readSensor\<close> computes from it, and prints the values of
  that new record. So a call can change the stored temperature: on the sensor as
  constructed (stored \<open>tCelsius = 0\<close>), a call at the calibration point leaves 25.
\<close>

theorem printData_reads_sensor:
  "sData (printData env s) = sData (readSensor env s)
   \<and> analogValue (sData (printData env s)) = env (adcReads s)
   \<and> adcReads (printData env s) = adcReads s + 1
   \<and> serial (printData env s) = serial s @
        [DataOut (analogValue (sData (readSensor env s))) (v (sData (readSensor env s)))
           (vin (sData (readSensor env s))) (k (sData (readSensor env s)))
           (Rt (sData (readSensor env s))) (tCelsius (sData (readSensor env s)))
           (tFahrenheit (sData (readSensor env s))) (tKelvin (sData (readSensor env s)))]
   \<and> tCelsius (sData (NTCSensor_new ntcRs10k adc_1mV sensorData 0 [])) = Fin 0
   \<and> tCelsius (sData (printData (steady 1650)
        (NTCSensor_new ntcRs10k adc_1mV sensorData 0 []))) = Fin 25"
proof -
  have "analogValue (sData (printData env s)) = env (adcReads s)"
    by (simp add: sData_printData sData_readSensor Let_def)
  moreover have "serial (printData env s) = serial s @
        [DataOut (analogValue (sData (readSensor env s))) (v (sData (readSensor env s)))
           (vin (sData (readSensor env s))) (k (sData (readSensor env s)))
           (Rt (sData (readSensor env s))) (tCelsius (sData (readSensor env s)))
           (tFahrenheit (sData (readSensor env s))) (tKelvin (sData (readSensor env s)))]"
    by (simp add: printData_def Let_def serial_readSensor)
  moreover have "tCelsius (sData (NTCSensor_new ntcRs10k adc_1mV sensorData 0 [])) = Fin 0"
    by (simp add: NTCSensor_new_def sensorData_def)
  ultimately show ?thesis
    using sData_printData [of env s] adcReads_printData [of env s] celsius_after_first_print
    by blast
qed

lemma sData_run_calls_setNTCbeta_Roo:
  "Roo (sData (run_calls env cs (setNTCbeta b s))) = Roo (sData s)"
  by (simp add: Roo_run_calls setNTCbeta_def)

lemma beta_run_calls_setNTCbeta:
  "beta (ntc (run_calls env cs (setNTCbeta b s))) = b"
  by (simp add: ntc_run_calls setNTCbeta_def)

text \<open>
  C10. \<^verbatim>\<open>setNTCbeta\<close> changes the parameter \<open>beta\<close> and nothing else: the other
  parameters, the whole record (so \<open>Roo\<close>) and the devices are as before. Every later
  \<^verbatim>\<open>readSensor\<close>, after any calls of \<^verbatim>\<open>readSensor\<close> and \<^verbatim>\<open>getCelsius\<close> in between,
  computes \<open>tKelvin\<close> from the new \<open>beta\<close> and the old \<open>Roo\<close>; after \<^verbatim>\<open>setup\<close> that \<open>Roo\<close>
  is the one computed from the parameters \<^verbatim>\<open>setup\<close> saw.
\<close>

theorem setNTCbeta_keeps_Roo:
  "beta (ntc (setNTCbeta b s)) = b
   \<and> Rs (ntc (setNTCbeta b s)) = Rs (ntc s) \<and> Ro (ntc (setNTCbeta b s)) = Ro (ntc s)
   \<and> adc (setNTCbeta b s) = adc s \<and> sData (setNTCbeta b s) = sData s
   \<and> adcReads (setNTCbeta b s) = adcReads s \<and> serial (setNTCbeta b s) = serial s
   \<and> tKelvin (sData (readSensor env (run_calls env cs (setNTCbeta b s)))) =
       fdiv (of_u16 b)
         (flog (fdiv (Rt (sData (readSensor env (run_calls env cs (setNTCbeta b s)))))
                     (Roo (sData s))))
   \<and> Roo (sData (readSensor env (run_calls env cs (setNTCbeta b (NTCSensor_setup env' s)))))
       = compute_Roo (ntc s)"
proof -
  have "tKelvin (sData (readSensor env (run_calls env cs (setNTCbeta b s)))) =
       fdiv (of_u16 b)
         (flog (fdiv (Rt (sData (readSensor env (run_calls env cs (setNTCbeta b s)))))
                     (Roo (sData s))))"
    by (simp add: sData_readSensor [of env "run_calls env cs (setNTCbeta b s)"] Let_def
        sData_run_calls_setNTCbeta_Roo beta_run_calls_setNTCbeta)
  moreover have "Roo (sData (readSensor env
        (run_calls env cs (setNTCbeta b (NTCSensor_setup env' s))))) = compute_Roo (ntc s)"
    by (simp add: Roo_readSensor sData_run_calls_setNTCbeta_Roo Roo_setup)
  ultimately show ?thesis
    by (simp add: setNTCbeta_def)
qed

lemma compute_Roo_beta_inj:
  assumes "Ro p \<noteq> 0" "compute_Roo (p\<lparr>beta := b\<rparr>) = compute_Roo p"
  shows "b = beta p"
proof -
  have c: "0 < real_of To - real_of Tabs"
    by (simp add: To_def Tabs_def real_of_def)
  have "0 < (unsigned (Ro p) :: real)"
    using assms(1) by (rule u16_pos)
  with assms(2) c have "(unsigned b :: real) = unsigned (beta p)"
    by (simp add: compute_Roo_eq)
  then have "real (unat b) = real (unat (beta p))"
    by simp
  then show ?thesis
    by (simp only: of_nat_eq_iff word_unat_eq_iff)
qed

section \<open>The two wirings of the divider\<close>

lemma k_of_vin:
  "k (sData (readSensor env s)) =
     (if ntcToGround (adc s)
      then fdiv (vin (sData (readSensor env s)))
             (fsub (Vcc (adc s)) (vin (sData (readSensor env s))))
      else fdiv (Fin 1) (fdiv (vin (sData (readSensor env s)))
             (fsub (Vcc (adc s)) (vin (sData (readSensor env s))))))"
  by (simp add: sData_readSensor Let_def)

lemma Rt_of_k:
  "Rt (sData (readSensor env s)) = fmul (of_u16 (Rs (ntc s))) (k (sData (readSensor env s)))"
  by (simp add: sData_readSensor Let_def)

lemma tKelvin_of_Rt:
  "tKelvin (sData (readSensor env s)) =
     fdiv (of_u16 (beta (ntc s))) (flog (fdiv (Rt (sData (readSensor env s))) (Roo (sData s))))"
  by (simp add: sData_readSensor Let_def)

lemma vin_flag:
  "vin (sData (readSensor env (s\<lparr>adc := (adc s)\<lparr>ntcToGround := b\<rparr>\<rparr>))) =
   vin (sData (readSensor env s))"
  by (simp add: sData_readSensor Let_def)

lemma k_flag_False:
  "k (sData (readSensor env (s\<lparr>adc := (adc s)\<lparr>ntcToGround := False\<rparr>\<rparr>))) =
   fdiv (Fin 1) (k (sData (readSensor env (s\<lparr>adc := (adc s)\<lparr>ntcToGround := True\<rparr>\<rparr>))))"
  by (simp add: sData_readSensor Let_def)

lemma ratio_cancel: "(c::real) \<noteq> 0 \<Longrightarrow> d \<noteq> 0 \<Longrightarrow> (c * a / d) / (c * b / d) = a / b"
  by simp

lemma k_to_ground:
  assumes "ntcToGround (adc s)" "Vcc (adc s) = Fin c" "0 < c" "0 < r" "0 < R"
    and "vin (sData (readSensor env s)) = Fin (c * R / (r + R))"
  shows "k (sData (readSensor env s)) = Fin (R / r)"
proof -
  have d: "c - c * R / (r + R) = c * r / (r + R)"
    using assms(3-5) by (simp add: field_simps)
  have q: "(c * R / (r + R)) / (c * r / (r + R)) = R / r"
    using assms(3-5) by (intro ratio_cancel) simp_all
  have "fdiv (Fin (c * R / (r + R))) (Fin (c * r / (r + R))) =
          Fin ((c * R / (r + R)) / (c * r / (r + R)))"
    using assms(3-5) by (intro fdiv_Fin) (simp_all add: add_pos_pos)
  then have e: "fdiv (Fin (c * R / (r + R))) (Fin (c * r / (r + R))) = Fin (R / r)"
    by (simp only: q)
  have "k (sData (readSensor env s)) =
          fdiv (vin (sData (readSensor env s)))
            (fsub (Vcc (adc s)) (vin (sData (readSensor env s))))"
    using assms(1) by (simp add: k_of_vin)
  then show ?thesis
    by (simp only: assms(2,6) fsub_Fin d e)
qed

lemma k_to_supply:
  assumes "\<not> ntcToGround (adc s)" "Vcc (adc s) = Fin c" "0 < c" "0 < r" "0 < R"
    and "vin (sData (readSensor env s)) = Fin (c * r / (r + R))"
  shows "k (sData (readSensor env s)) = Fin (R / r)"
proof -
  have d: "c - c * r / (r + R) = c * R / (r + R)"
    using assms(3-5) by (simp add: field_simps)
  have q: "(c * r / (r + R)) / (c * R / (r + R)) = r / R"
    using assms(3-5) by (intro ratio_cancel) simp_all
  have "fdiv (Fin (c * r / (r + R))) (Fin (c * R / (r + R))) =
          Fin ((c * r / (r + R)) / (c * R / (r + R)))"
    using assms(3-5) by (intro fdiv_Fin) (simp_all add: add_pos_pos)
  then have e: "fdiv (Fin (c * r / (r + R))) (Fin (c * R / (r + R))) = Fin (r / R)"
    by (simp only: q)
  have "fdiv (Fin 1) (Fin (r / R)) = Fin (1 / (r / R))"
    using assms(4,5) by (intro fdiv_Fin) simp_all
  then have i: "fdiv (Fin 1) (Fin (r / R)) = Fin (R / r)"
    by simp
  have "k (sData (readSensor env s)) =
          fdiv (Fin 1) (fdiv (vin (sData (readSensor env s)))
            (fsub (Vcc (adc s)) (vin (sData (readSensor env s)))))"
    using assms(1) by (simp add: k_of_vin)
  then show ?thesis
    by (simp only: assms(2,6) fsub_Fin d e i)
qed

text \<open>
  C5. For the same sample the conversion factor of the wiring to the supply
  (\<open>ntcToGround\<close> false) is the reciprocal \<open>1 / k\<close> of the factor of the wiring to ground,
  the voltage \<open>vin\<close> being the same. And for one resistance \<open>R\<close> of the NTC, a sensor
  wired to ground that sees \<open>vin = Vcc * R / (Rs + R)\<close> and a sensor wired to the supply
  that sees \<open>vin = Vcc * Rs / (Rs + R)\<close>, with the flag set to the wiring and the same
  other parameters, both store \<open>Rt = R\<close> and the same three temperatures.
\<close>

theorem wiring_direction:
  assumes "ntcToGround (adc sg)" "\<not> ntcToGround (adc sv)"
    and "ntc sv = ntc sg" "Roo (sData sv) = Roo (sData sg)"
    and "Vcc (adc sg) = Fin Vc" "Vcc (adc sv) = Fin Vc"
    and "0 < Vc" "0 < R" "Rs (ntc sg) \<noteq> 0"
    and "vin (sData (readSensor envg sg)) =
           Fin (Vc * R / (real (unat (Rs (ntc sg))) + R))"
    and "vin (sData (readSensor envv sv)) =
           Fin (Vc * real (unat (Rs (ntc sg))) / (real (unat (Rs (ntc sg))) + R))"
  shows "k (sData (readSensor env (s\<lparr>adc := (adc s)\<lparr>ntcToGround := False\<rparr>\<rparr>))) =
           fdiv (Fin 1) (k (sData (readSensor env (s\<lparr>adc := (adc s)\<lparr>ntcToGround := True\<rparr>\<rparr>))))
    \<and> vin (sData (readSensor env (s\<lparr>adc := (adc s)\<lparr>ntcToGround := False\<rparr>\<rparr>))) =
           vin (sData (readSensor env (s\<lparr>adc := (adc s)\<lparr>ntcToGround := True\<rparr>\<rparr>)))
    \<and> k (sData (readSensor envv sv)) = k (sData (readSensor envg sg))
    \<and> Rt (sData (readSensor envg sg)) = Fin R \<and> Rt (sData (readSensor envv sv)) = Fin R
    \<and> tKelvin (sData (readSensor envv sv)) = tKelvin (sData (readSensor envg sg))
    \<and> tCelsius (sData (readSensor envv sv)) = tCelsius (sData (readSensor envg sg))
    \<and> tFahrenheit (sData (readSensor envv sv)) = tFahrenheit (sData (readSensor envg sg))"
proof -
  define r where "r = real (unat (Rs (ntc sg)))"
  have r: "0 < r"
    using assms(9) by (simp add: r_def u16_pos)
  have kg: "k (sData (readSensor envg sg)) = Fin (R / r)"
    using assms(1,5,7,8,10) r by (intro k_to_ground [where c = Vc]) (simp_all add: r_def)
  have kv: "k (sData (readSensor envv sv)) = Fin (R / r)"
    using assms(2,6,7,8,11) r by (intro k_to_supply [where c = Vc]) (simp_all add: r_def)
  have m: "fmul (Fin r) (Fin (R / r)) = Fin R"
    using r assms(8) by (simp add: fmul_Fin)
  have Rg: "Rt (sData (readSensor envg sg)) = Fin R"
    using m by (simp add: Rt_of_k kg of_u16_def r_def)
  have Rv: "Rt (sData (readSensor envv sv)) = Fin R"
    using m by (simp add: Rt_of_k kv of_u16_def r_def assms(3))
  have K: "tKelvin (sData (readSensor envv sv)) = tKelvin (sData (readSensor envg sg))"
    by (simp add: tKelvin_of_Rt Rg Rv assms(3,4))
  have C: "tCelsius (sData (readSensor envv sv)) = tCelsius (sData (readSensor envg sg))"
    by (simp add: celsius_of_kelvin K)
  have F: "tFahrenheit (sData (readSensor envv sv)) = tFahrenheit (sData (readSensor envg sg))"
    by (simp add: fahrenheit_of_celsius C)
  show ?thesis
    using k_flag_False [of env s] vin_flag [where env = env and s = s and b = False]
      vin_flag [where env = env and s = s and b = True]
      kg kv Rg Rv K C F
    by simp
qed

theorem wiring_direction_witness:
  "Rt (sData (readSensor (steady 2475) (NTCSensor_new ntcRs10k adc_1mV sensorData 0 [])))
     = Fin 30000
   \<and> Rt (sData (readSensor (steady 825) (NTCSensor_new ntcRs10k adc_1mV_toVcc sensorData 0 [])))
     = Fin 30000
   \<and> tCelsius (sData (readSensor (steady 825)
        (NTCSensor_new ntcRs10k adc_1mV_toVcc sensorData 0 []))) =
     tCelsius (sData (readSensor (steady 2475)
        (NTCSensor_new ntcRs10k adc_1mV sensorData 0 [])))"
proof -
  let ?sg = "NTCSensor_new ntcRs10k adc_1mV sensorData 0 []"
  let ?sv = "NTCSensor_new ntcRs10k adc_1mV_toVcc sensorData 0 []"
  have 1: "ntcToGround (adc ?sg)"
    by (simp add: NTCSensor_new_def adc_1mV_def)
  have 2: "\<not> ntcToGround (adc ?sv)"
    by (simp add: NTCSensor_new_def adc_1mV_toVcc_def)
  have 3: "ntc ?sv = ntc ?sg" and 4: "Roo (sData ?sv) = Roo (sData ?sg)"
    by (simp_all add: NTCSensor_new_def)
  have 5: "Vcc (adc ?sg) = Fin 3300" and 6: "Vcc (adc ?sv) = Fin 3300"
    by (simp_all add: NTCSensor_new_def adc_1mV_toVcc_def adc_1mV_def)
  have 7: "(0::real) < 3300" and 8: "(0::real) < 30000"
    by simp_all
  have 9: "Rs (ntc ?sg) \<noteq> 0"
    by (simp add: NTCSensor_new_def ntcRs10k_def)
  have 10: "vin (sData (readSensor (steady 2475) ?sg)) =
      Fin (3300 * 30000 / (real (unat (Rs (ntc ?sg))) + 30000))"
    by (simp add: sData_readSensor Let_def NTCSensor_new_def ntcRs10k_def adc_1mV_def
        steady_def of_u16_def fsub_Fin fadd_Fin fmul_Fin fdiv_Fin)
  have 11: "vin (sData (readSensor (steady 825) ?sv)) =
      Fin (3300 * real (unat (Rs (ntc ?sg))) / (real (unat (Rs (ntc ?sg))) + 30000))"
    by (simp add: sData_readSensor Let_def NTCSensor_new_def ntcRs10k_def adc_1mV_def
        adc_1mV_toVcc_def steady_def of_u16_def fsub_Fin fadd_Fin fmul_Fin fdiv_Fin)
  from wiring_direction [OF 1 2 3 4 5 6 7 8 9 10 11] show ?thesis
    by blast
qed

section \<open>The chain on finite values\<close>

text \<open>
  Where no division by zero and no logarithm outside its domain occurs, the values that
  \<^verbatim>\<open>readSensor\<close> stores are the real numbers of the formulas: with the sample \<open>a\<close>, a
  voltage \<open>x = a * ((Vref - Voff) / Amax) + Voff\<close> strictly between 0 and \<open>Vcc\<close>, \<open>Rs\<close>
  and \<open>beta\<close> not zero, and a finite positive \<open>Roo\<close> other than \<open>Rt\<close>.
\<close>

lemma fmul_Fin_pos: "0 < b \<Longrightarrow> fmul (Fin a) (Fin b) = Fin (a * b)"
  by (auto simp: fmul_def fin_def zero_s_def is_nan_def is_inf_def real_of_def sign_bit_def)

lemma fdiv_Fin_pos: "0 < b \<Longrightarrow> fdiv (Fin a) (Fin b) = Fin (a / b)"
  by (auto simp: fdiv_def fin_def zero_s_def is_nan_def is_inf_def is_zero_def real_of_def
      sign_bit_def)

lemma readSensor_real_chain:
  fixes s :: NTCSensor and env :: "nat \<Rightarrow> 16 word"
  defines "a \<equiv> real (unat (env (adcReads s)))"
    and "rs \<equiv> real (unat (Rs (ntc s)))" and "b \<equiv> real (unat (beta (ntc s)))"
    and "am \<equiv> real (unat (Amax (adc s)))"
  assumes par: "Vref (adc s) = Fin vr" "Voff (adc s) = Fin vo" "Vcc (adc s) = Fin vc"
      "Roo (sData s) = Fin ro"
    and nz: "Amax (adc s) \<noteq> 0" "Rs (ntc s) \<noteq> 0" "beta (ntc s) \<noteq> 0" "vo < vr" "0 < ro"
    and x: "x = a * ((vr - vo) / am) + vo" "0 < x" "x < vc"
    and kk: "kk = (if ntcToGround (adc s) then x / (vc - x) else 1 / (x / (vc - x)))"
    and ne: "rs * kk \<noteq> ro"
  shows "v (sData (readSensor env s)) = Fin ((vr - vo) / am)"
    and "vin (sData (readSensor env s)) = Fin x"
    and "k (sData (readSensor env s)) = Fin kk"
    and "Rt (sData (readSensor env s)) = Fin (rs * kk)"
    and "tKelvin (sData (readSensor env s)) = Fin (b / ln (rs * kk / ro))"
    and "tCelsius (sData (readSensor env s)) = Fin (b / ln (rs * kk / ro) + real_of Tabs)"
    and "tFahrenheit (sData (readSensor env s)) =
           Fin ((b / ln (rs * kk / ro) + real_of Tabs) * 9 / 5 + 32)"
proof -
  have am: "0 < am" and rs: "0 < rs" and b: "0 < b" and a: "0 \<le> a"
    using nz(1-3) by (simp_all add: am_def rs_def b_def a_def u16_pos u16_nonneg)
  have V: "v (sData (readSensor env s)) = Fin ((vr - vo) / am)"
    using am by (simp add: sData_readSensor Let_def par fsub_Fin of_u16_def fdiv_Fin_pos am_def)
  then show "v (sData (readSensor env s)) = Fin ((vr - vo) / am)" .
  have s0: "0 < (vr - vo) / am"
    using am nz(4) by simp
  have "vin (sData (readSensor env s)) =
      fadd (fmul (Fin a) (v (sData (readSensor env s)))) (Fin vo)"
    by (simp add: sData_readSensor Let_def par of_u16_def a_def)
  then have X: "vin (sData (readSensor env s)) = Fin x"
    using s0 by (simp add: V fmul_Fin_pos fadd_Fin x(1))
  then show "vin (sData (readSensor env s)) = Fin x" .
  have k0: "fdiv (Fin x) (fsub (Fin vc) (Fin x)) = Fin (x / (vc - x))"
    using x(2,3) by (simp add: fsub_Fin fdiv_Fin_pos)
  have k1: "fdiv (Fin 1) (Fin (x / (vc - x))) = Fin (1 / (x / (vc - x)))"
    using x(2,3) by (intro fdiv_Fin_pos) simp
  have K: "k (sData (readSensor env s)) = Fin kk"
    by (simp add: k_of_vin X par k0 k1 kk)
  then show "k (sData (readSensor env s)) = Fin kk" .
  have kpos: "0 < kk"
    using x(2,3) by (simp add: kk)
  have R: "Rt (sData (readSensor env s)) = Fin (rs * kk)"
    using kpos by (simp add: Rt_of_k K of_u16_def fmul_Fin_pos rs_def)
  then show "Rt (sData (readSensor env s)) = Fin (rs * kk)" .
  have q: "0 < rs * kk / ro"
    using rs kpos nz(5) by simp
  have "rs * kk / ro \<noteq> 1"
    using ne nz(5) by simp
  with q have l: "ln (rs * kk / ro) \<noteq> 0"
    by simp
  have "fdiv (Fin (rs * kk)) (Fin ro) = Fin (rs * kk / ro)"
    using nz(5) by (rule fdiv_Fin_pos)
  then have "tKelvin (sData (readSensor env s)) = fdiv (Fin b) (Fin (ln (rs * kk / ro)))"
    using q by (simp add: tKelvin_of_Rt R par of_u16_def flog_Fin b_def)
  also have "\<dots> = Fin (b / ln (rs * kk / ro))"
    using b l by (intro fdiv_Fin) simp_all
  finally show T: "tKelvin (sData (readSensor env s)) = Fin (b / ln (rs * kk / ro))" .
  then show C: "tCelsius (sData (readSensor env s)) =
      Fin (b / ln (rs * kk / ro) + real_of Tabs)"
    by (simp add: celsius_of_kelvin Tabs_def real_of_def fadd_Fin)
  show "tFahrenheit (sData (readSensor env s)) =
      Fin ((b / ln (rs * kk / ro) + real_of Tabs) * 9 / 5 + 32)"
    by (simp add: fahrenheit_of_celsius C fmul_Fin_pos fdiv_Fin_pos fadd_Fin)
qed

section \<open>A resistance equal to \<open>Roo\<close>\<close>

lemma flog_self_ratio:
  "flog (fdiv x x) = (if is_finite x \<and> \<not> is_zero x then Fin 0 else NaN)"
  by (cases x)
    (simp_all add: fdiv_def flog_def is_nan_def is_inf_def is_zero_def is_finite_def
      fin_def real_of_def)

lemma fdiv_u16_zero: "fdiv (of_u16 b) (Fin 0) = (if b = 0 then NaN else PInf)"
proof (cases "b = 0")
  case True
  then show ?thesis
    by (simp add: of_u16_def fdiv_zero_zero)
next
  case False
  then have "0 < (unsigned b :: real)"
    by (rule u16_pos)
  then show ?thesis
    using False by (simp add: of_u16_def fdiv_by_zero)
qed

lemma fdiv_NaN: "fdiv x NaN = NaN"
  by (simp add: fdiv_def is_nan_def)

lemma PInf_chain:
  "fadd PInf Tabs = PInf" "fadd (fdiv (fmul PInf (Fin 9)) (Fin 5)) (Fin 32) = PInf"
  by (simp_all add: fadd_def fdiv_def fmul_def Tabs_def is_nan_def is_inf_def is_zero_def
      inf_s_def sign_bit_def)

lemma NaN_chain:
  "fadd NaN Tabs = NaN" "fadd (fdiv (fmul NaN (Fin 9)) (Fin 5)) (Fin 32) = NaN"
  by (simp_all add: fadd_def fdiv_def fmul_def is_nan_def)

lemma tKelvin_at_Roo:
  assumes "Rt (sData (readSensor env s)) = Roo (sData s)"
  shows "tKelvin (sData (readSensor env s)) =
     (if is_finite (Roo (sData s)) \<and> \<not> is_zero (Roo (sData s)) \<and> beta (ntc s) \<noteq> 0
      then PInf else NaN)"
  by (simp add: tKelvin_of_Rt assms flog_self_ratio fdiv_u16_zero fdiv_NaN)

text \<open>
  C3, as the code has it. \<^verbatim>\<open>readSensor\<close> has no guard: for every state and sample for
  which the computed \<open>Rt\<close> equals \<open>Roo\<close>, the read is kept (the sample is stored, one
  \<^verbatim>\<open>analogRead\<close> was made) and the three temperatures stored are not finite: positive
  infinity when \<open>Roo\<close> is finite and not zero and \<open>beta\<close> is not zero, NaN otherwise.
\<close>

theorem readSensor_no_guard:
  assumes "Rt (sData (readSensor env s)) = Roo (sData s)"
  shows "tKelvin (sData (readSensor env s)) =
       (if is_finite (Roo (sData s)) \<and> \<not> is_zero (Roo (sData s)) \<and> beta (ntc s) \<noteq> 0
        then PInf else NaN)
    \<and> tCelsius (sData (readSensor env s)) = tKelvin (sData (readSensor env s))
    \<and> tFahrenheit (sData (readSensor env s)) = tKelvin (sData (readSensor env s))
    \<and> \<not> is_finite (tCelsius (sData (readSensor env s)))
    \<and> analogValue (sData (readSensor env s)) = env (adcReads s)
    \<and> adcReads (readSensor env s) = adcReads s + 1"
proof -
  have K: "tKelvin (sData (readSensor env s)) = PInf \<or> tKelvin (sData (readSensor env s)) = NaN"
    by (simp add: tKelvin_at_Roo [OF assms])
  then have C: "tCelsius (sData (readSensor env s)) = tKelvin (sData (readSensor env s))"
    by (auto simp: celsius_of_kelvin PInf_chain NaN_chain)
  from K have F: "tFahrenheit (sData (readSensor env s)) = tKelvin (sData (readSensor env s))"
    by (auto simp: fahrenheit_of_celsius celsius_of_kelvin PInf_chain NaN_chain)
  from K have N: "\<not> is_finite (tKelvin (sData (readSensor env s)))"
    by (auto simp: is_finite_def)
  have A: "analogValue (sData (readSensor env s)) = env (adcReads s)"
    by (simp add: sData_readSensor Let_def)
  show ?thesis
    using tKelvin_at_Roo [OF assms] C F N A adcReads_readSensor [of env s] by simp
qed

lemma Roo_sensor_beta0: "Roo (sData sensor_beta0) = Fin 10000"
  by (simp add: sensor_beta0_def NTCSensor_new_def compute_Roo_eq ntc_beta0_def)

lemma Rt_sensor_beta0: "Rt (sData (readSensor (steady 1650) sensor_beta0)) = Fin 10000"
  by (simp add: sData_readSensor Let_def sensor_beta0_def NTCSensor_new_def ntc_beta0_def
      adc_1mV_def steady_def of_u16_def fsub_Fin fadd_Fin fmul_Fin fdiv_Fin)

lemma Rt_sensor_beta0_set:
  "Rt (sData (readSensor (steady 1650) (setNTCbeta 2800 sensor_beta0))) = Fin 10000"
  by (simp add: sData_readSensor Let_def sensor_beta0_def NTCSensor_new_def ntc_beta0_def
      setNTCbeta_def adc_1mV_def steady_def of_u16_def fsub_Fin fadd_Fin fmul_Fin fdiv_Fin)

theorem readSensor_no_guard_witness:
  "Rt (sData (readSensor (steady 1650) (setNTCbeta 2800 sensor_beta0))) =
     Roo (sData (setNTCbeta 2800 sensor_beta0))
   \<and> tCelsius (sData (readSensor (steady 1650) (setNTCbeta 2800 sensor_beta0))) = PInf
   \<and> analogValue (sData (readSensor (steady 1650) (setNTCbeta 2800 sensor_beta0))) = 1650"
proof -
  have R: "Roo (sData (setNTCbeta 2800 sensor_beta0)) = Fin 10000"
    by (simp add: setNTCbeta_def Roo_sensor_beta0)
  have h: "Rt (sData (readSensor (steady 1650) (setNTCbeta 2800 sensor_beta0))) =
      Roo (sData (setNTCbeta 2800 sensor_beta0))"
    by (simp only: Rt_sensor_beta0_set R)
  have b: "beta (ntc (setNTCbeta 2800 sensor_beta0)) \<noteq> 0"
    by (simp add: setNTCbeta_def)
  have a: "adcReads (setNTCbeta 2800 sensor_beta0) = 0"
    by (simp add: setNTCbeta_def sensor_beta0_def NTCSensor_new_def)
  from readSensor_no_guard [OF h] h R b a show ?thesis
    by (simp add: is_finite_def is_zero_def steady_def)
qed

theorem readSensor_guard_counterexample:
  "Rt (sData (readSensor (steady 1650) sensor_beta0)) = Roo (sData sensor_beta0)
   \<and> tCelsius (sData (readSensor (steady 1650) sensor_beta0)) = NaN
   \<and> tCelsius (sData sensor_beta0) = Fin 0
   \<and> analogValue (sData sensor_beta0) = 0
   \<and> analogValue (sData (readSensor (steady 1650) sensor_beta0)) = 1650
   \<and> sData (readSensor (steady 1650) sensor_beta0) \<noteq> sData sensor_beta0
   \<and> Rt (sData (readSensor (steady 1650) (setNTCbeta 2800 sensor_beta0))) =
       Roo (sData (setNTCbeta 2800 sensor_beta0))
   \<and> tCelsius (sData (readSensor (steady 1650) (setNTCbeta 2800 sensor_beta0))) = PInf"
proof -
  have h: "Rt (sData (readSensor (steady 1650) sensor_beta0)) = Roo (sData sensor_beta0)"
    by (simp only: Rt_sensor_beta0 Roo_sensor_beta0)
  have b: "beta (ntc sensor_beta0) = 0"
    by (simp add: sensor_beta0_def NTCSensor_new_def ntc_beta0_def)
  have K: "tKelvin (sData (readSensor (steady 1650) sensor_beta0)) = NaN"
    by (simp add: tKelvin_at_Roo [OF h] b)
  have C: "tCelsius (sData (readSensor (steady 1650) sensor_beta0)) = NaN"
    by (simp add: celsius_of_kelvin K NaN_chain)
  have c0: "tCelsius (sData sensor_beta0) = Fin 0"
    and a0: "analogValue (sData sensor_beta0) = 0"
    by (simp_all add: sensor_beta0_def NTCSensor_new_def sensorData_def)
  have a1: "analogValue (sData (readSensor (steady 1650) sensor_beta0)) = 1650"
    by (simp add: sData_readSensor Let_def steady_def)
  have ne: "sData (readSensor (steady 1650) sensor_beta0) \<noteq> sData sensor_beta0"
  proof
    assume "sData (readSensor (steady 1650) sensor_beta0) = sData sensor_beta0"
    then have "analogValue (sData (readSensor (steady 1650) sensor_beta0)) =
        analogValue (sData sensor_beta0)"
      by simp
    then show False
      by (simp add: a0 a1)
  qed
  have R: "Roo (sData (setNTCbeta 2800 sensor_beta0)) = Fin 10000"
    by (simp add: setNTCbeta_def Roo_sensor_beta0)
  have h2: "Rt (sData (readSensor (steady 1650) (setNTCbeta 2800 sensor_beta0))) =
      Roo (sData (setNTCbeta 2800 sensor_beta0))"
    by (simp only: Rt_sensor_beta0_set R)
  have b2: "beta (ntc (setNTCbeta 2800 sensor_beta0)) \<noteq> 0"
    by (simp add: setNTCbeta_def)
  have K2: "tKelvin (sData (readSensor (steady 1650) (setNTCbeta 2800 sensor_beta0))) = PInf"
    by (simp add: tKelvin_at_Roo [OF h2] R b2 is_finite_def is_zero_def)
  have C2: "tCelsius (sData (readSensor (steady 1650) (setNTCbeta 2800 sensor_beta0))) = PInf"
    by (simp add: celsius_of_kelvin K2 PInf_chain)
  show ?thesis
    using h C c0 a0 a1 ne h2 C2 by blast
qed

section \<open>The hysteresis\<close>

lemma turnHeatingOn_idem: "turnHeatingOn (turnHeatingOn p) = turnHeatingOn p"
  by (simp add: turnHeatingOn_def)

lemma turnHeatingOff_idem: "turnHeatingOff (turnHeatingOff p) = turnHeatingOff p"
  by (simp add: turnHeatingOff_def)

lemma fless_Fin: "fless (Fin a) (Fin b) = (a < b)"
  by (simp add: fless_def real_of_def)

lemma fle_Fin: "fle (Fin a) (Fin b) = (a \<le> b)"
  by (simp add: fle_def real_of_def)

text \<open>
  C2. From Armed-Idle with the limits 18 and 22 and the heating off, the polls that
  observe 20, 17, 16, 19, 23 and 21 degrees invoke the callback of the lower limit once,
  at the poll of 17 (the first below 18), and the callback of the upper limit once, at the
  poll of 23: the callbacks invoked and the values written to the heater's pin are given
  after each poll. The polls of 20, 16, 19 and 21 invoke nothing.
\<close>

theorem hysteresis_edge_triggered:
  fixes p :: program
  defines "p0 \<equiv> p\<lparr>thermostat := (thermostat p)\<lparr>tstate := ArmedIdle, lowerLimit := Fin 18,
                      upperLimit := Fin 22\<rparr>,
                    heatingIsOn := False, heaterPin := [], calls := []\<rparr>"
  shows "calls (polls [Fin 20] p0) = [] \<and> heaterPin (polls [Fin 20] p0) = []
    \<and> calls (polls [Fin 20, Fin 17] p0) = [OnBelowLowerLimit]
    \<and> heaterPin (polls [Fin 20, Fin 17] p0) = [True]
    \<and> calls (polls [Fin 20, Fin 17, Fin 16] p0) = [OnBelowLowerLimit]
    \<and> heaterPin (polls [Fin 20, Fin 17, Fin 16] p0) = [True]
    \<and> calls (polls [Fin 20, Fin 17, Fin 16, Fin 19] p0) = [OnBelowLowerLimit]
    \<and> heaterPin (polls [Fin 20, Fin 17, Fin 16, Fin 19] p0) = [True]
    \<and> calls (polls [Fin 20, Fin 17, Fin 16, Fin 19, Fin 23] p0) =
         [OnBelowLowerLimit, OnAboveUpperLimit]
    \<and> heaterPin (polls [Fin 20, Fin 17, Fin 16, Fin 19, Fin 23] p0) = [True, False]
    \<and> calls (polls [Fin 20, Fin 17, Fin 16, Fin 19, Fin 23, Fin 21] p0) =
         [OnBelowLowerLimit, OnAboveUpperLimit]
    \<and> heaterPin (polls [Fin 20, Fin 17, Fin 16, Fin 19, Fin 23, Fin 21] p0) = [True, False]
    \<and> tstate (thermostat (polls [Fin 20, Fin 17, Fin 16, Fin 19, Fin 23, Fin 21] p0)) = ArmedIdle
    \<and> heatingIsOn (polls [Fin 20, Fin 17, Fin 16, Fin 19, Fin 23, Fin 21] p0) = False"
  unfolding p0_def
  by (simp add: hysteresis_def turnHeatingOn_def turnHeatingOff_def fless_Fin fle_Fin)

section \<open>The interval of the polls\<close>

lemma sensor_hysteresis: "sensor (hysteresis t p) = sensor p"
  by (simp add: hysteresis_def turnHeatingOn_def turnHeatingOff_def split: tstate.splits)

lemma interval_hysteresis: "interval (thermostat (hysteresis t p)) = interval (thermostat p)"
  by (simp add: hysteresis_def turnHeatingOn_def turnHeatingOff_def split: tstate.splits)

lemma onTick_hysteresis:
  "count_list (calls (hysteresis t p)) OnTick = count_list (calls p) OnTick"
  by (simp add: hysteresis_def turnHeatingOn_def turnHeatingOff_def split: tstate.splits)

lemma adcReads_printParams: "adcReads (printParams s) = adcReads s"
  by (simp add: printParams_def)

lemma adcReads_processData:
  "adcReads (sensor (processData env p)) = adcReads (sensor p) + 2"
  by (simp add: processData_def printSettings_def Let_def adcReads_printData
      adcReads_printParams adcReads_readSensor)

lemma thermostat_processData: "thermostat (processData env p) = thermostat p"
  by (simp add: processData_def printSettings_def Let_def)

lemma calls_processData: "calls (processData env p) = calls p"
  by (simp add: processData_def printSettings_def Let_def)

lemma loop_idle:
  "now - lastPoll (thermostat p) < interval (thermostat p) \<Longrightarrow> Thermostat_loop env now p = p"
  by (simp add: Thermostat_loop_def)

lemma loop_poll:
  assumes "interval (thermostat p) \<le> now - lastPoll (thermostat p)"
  shows "adcReads (sensor (Thermostat_loop env now p)) = adcReads (sensor p) + 3"
    and "count_list (calls (Thermostat_loop env now p)) OnTick = count_list (calls p) OnTick + 1"
    and "lastPoll (thermostat (Thermostat_loop env now p)) = now"
    and "interval (thermostat (Thermostat_loop env now p)) = interval (thermostat p)"
  using assms
  by (simp_all add: Thermostat_loop_def Let_def sensor_hysteresis interval_hysteresis
      onTick_hysteresis adcReads_processData thermostat_processData calls_processData
      adcReads_readSensor)

lemma run_ticks_idle:
  "\<forall>x\<in>set ts. x - lastPoll (thermostat p) < interval (thermostat p) \<Longrightarrow>
   run_ticks env ts p = p"
  by (induction ts) (simp_all add: loop_idle)

lemma run_ticks_one_poll:
  assumes "\<forall>x\<in>set ts. \<forall>y\<in>set ts. y - x < interval (thermostat p)"
  shows "count_list (calls (run_ticks env ts p)) OnTick \<le> count_list (calls p) OnTick + 1
    \<and> adcReads (sensor (run_ticks env ts p)) \<le> adcReads (sensor p) + 3"
  using assms
proof (induction ts arbitrary: p)
  case Nil
  then show ?case by simp
next
  case (Cons t ts)
  show ?case
  proof (cases "t - lastPoll (thermostat p) < interval (thermostat p)")
    case True
    then have "Thermostat_loop env t p = p"
      by (rule loop_idle)
    with Cons show ?thesis by simp
  next
    case False
    let ?q = "Thermostat_loop env t p"
    from False have i: "interval (thermostat p) \<le> t - lastPoll (thermostat p)"
      by simp
    have "\<forall>x\<in>set ts. x - lastPoll (thermostat ?q) < interval (thermostat ?q)"
      using Cons.prems by (simp add: loop_poll [OF i])
    then have "run_ticks env ts ?q = ?q"
      by (rule run_ticks_idle)
    then show ?thesis
      by (simp add: loop_poll [OF i])
  qed
qed

lemma sorted_le_last: "sorted xs \<Longrightarrow> y \<in> set xs \<Longrightarrow> y \<le> last xs"
  by (induction xs) auto

lemma window_pairwise:
  fixes t :: nat
  assumes "sorted (t # ts)" "last (t # ts) - t < i"
  shows "\<forall>x\<in>set (t # ts). \<forall>y\<in>set (t # ts). y - x < i"
proof (intro ballI)
  fix x y assume x: "x \<in> set (t # ts)" and y: "y \<in> set (t # ts)"
  from assms(1) x have "t \<le> x" by auto
  moreover from assms(1) y have "y \<le> last (t # ts)" by (rule sorted_le_last)
  ultimately show "y - x < i" using assms(2) by linarith
qed

text \<open>
  C4, as the program has it. A tick before the interval has passed changes nothing. A
  tick once it has passed makes one poll: the data callback is invoked once and the time
  of the last poll is reset; the sensor is read three times, once by the controller and
  twice by the data callback \<^verbatim>\<open>processData\<close> (its own \<^verbatim>\<open>readSensor\<close> and the one of
  \<^verbatim>\<open>printData\<close>). Hence the ticks at any times in increasing order that span less than
  one interval (100 of them, say) invoke the data callback at most once and read the
  sensor at most three times.
\<close>

theorem loop_polls_once_per_interval:
  "(now - lastPoll (thermostat p) < interval (thermostat p) \<longrightarrow>
      Thermostat_loop env now p = p)
   \<and> (interval (thermostat p) \<le> now - lastPoll (thermostat p) \<longrightarrow>
      adcReads (sensor (Thermostat_loop env now p)) = adcReads (sensor p) + 3
      \<and> count_list (calls (Thermostat_loop env now p)) OnTick = count_list (calls p) OnTick + 1
      \<and> lastPoll (thermostat (Thermostat_loop env now p)) = now)
   \<and> (sorted (t # ts) \<and> last (t # ts) - t < interval (thermostat p) \<longrightarrow>
      count_list (calls (run_ticks env (t # ts) p)) OnTick \<le> count_list (calls p) OnTick + 1
      \<and> adcReads (sensor (run_ticks env (t # ts) p)) \<le> adcReads (sensor p) + 3)"
proof (intro conjI impI)
  assume "sorted (t # ts) \<and> last (t # ts) - t < interval (thermostat p)"
  then have w: "\<forall>x\<in>set (t # ts). \<forall>y\<in>set (t # ts). y - x < interval (thermostat p)"
    by (intro window_pairwise) simp_all
  from run_ticks_one_poll [OF w]
  show "count_list (calls (run_ticks env (t # ts) p)) OnTick \<le> count_list (calls p) OnTick + 1"
    and "adcReads (sensor (run_ticks env (t # ts) p)) \<le> adcReads (sensor p) + 3"
    by simp_all
qed (simp_all add: loop_idle loop_poll)

lemma program0_fields:
  "lastPoll (thermostat program0) = 0" "interval (thermostat program0) = 1000"
  "adcReads (sensor program0) = 0" "calls program0 = []"
  by (simp_all add: program0_def thermostat0_def NTCSensor_new_def)

lemma ticks99_facts:
  "length (1000 # ticks99) = 100" "sorted (1000 # ticks99)" "last (1000 # ticks99) = 1099"
  "set ticks99 = {1001..<1100}"
  by (simp_all add: ticks99_def del: upt_rec_numeral)

lemma run_ticks_program0:
  "run_ticks env (1000 # ticks99) program0 = Thermostat_loop env 1000 program0"
proof -
  let ?q = "Thermostat_loop env 1000 program0"
  have i: "interval (thermostat program0) \<le> 1000 - lastPoll (thermostat program0)"
    by (simp add: program0_fields)
  have "\<forall>x\<in>set ticks99. x - lastPoll (thermostat ?q) < interval (thermostat ?q)"
    by (auto simp: loop_poll [OF i] program0_fields ticks99_facts)
  then have "run_ticks env ticks99 ?q = ?q"
    by (rule run_ticks_idle)
  then show ?thesis
    by simp
qed

theorem loop_polls_once_per_interval_witness:
  "Thermostat_loop (steady 2048) 999 program0 = program0
   \<and> adcReads (sensor (Thermostat_loop (steady 2048) 1000 program0)) = 3
   \<and> count_list (calls (Thermostat_loop (steady 2048) 1000 program0)) OnTick = 1
   \<and> lastPoll (thermostat (Thermostat_loop (steady 2048) 1000 program0)) = 1000
   \<and> count_list (calls (run_ticks (steady 2048) (1000 # ticks99) program0)) OnTick \<le> 1
   \<and> adcReads (sensor (run_ticks (steady 2048) (1000 # ticks99) program0)) \<le> 3"
proof -
  have a: "999 - lastPoll (thermostat program0) < interval (thermostat program0)"
    by (simp add: program0_fields)
  have b: "interval (thermostat program0) \<le> 1000 - lastPoll (thermostat program0)"
    by (simp add: program0_fields)
  have c: "sorted (1000 # ticks99)
      \<and> last (1000 # ticks99) - 1000 < interval (thermostat program0)"
    by (simp only: ticks99_facts program0_fields simp_thms)
  from loop_polls_once_per_interval [of 999 program0 "steady 2048"] a
  have 1: "Thermostat_loop (steady 2048) 999 program0 = program0"
    by blast
  from loop_polls_once_per_interval [of 1000 program0 "steady 2048"] b
  have 2: "adcReads (sensor (Thermostat_loop (steady 2048) 1000 program0)) = 3
      \<and> count_list (calls (Thermostat_loop (steady 2048) 1000 program0)) OnTick = 1
      \<and> lastPoll (thermostat (Thermostat_loop (steady 2048) 1000 program0)) = 1000"
    by (simp add: program0_fields)
  from loop_polls_once_per_interval [of _ program0 "steady 2048" 1000 ticks99] c
  have 3: "count_list (calls (run_ticks (steady 2048) (1000 # ticks99) program0)) OnTick \<le> 1
      \<and> adcReads (sensor (run_ticks (steady 2048) (1000 # ticks99) program0)) \<le> 3"
    by (simp add: program0_fields)
  from 1 2 3 show ?thesis by blast
qed

theorem loop_one_read_counterexample:
  "length (1000 # ticks99) = 100
   \<and> sorted (1000 # ticks99)
   \<and> last (1000 # ticks99) - 1000 < interval (thermostat program0)
   \<and> adcReads (sensor program0) = 0
   \<and> adcReads (sensor (Thermostat_loop (steady 2048) 1000 program0)) = 3
   \<and> adcReads (sensor (run_ticks (steady 2048) (1000 # ticks99) program0)) = 3"
proof -
  have i: "interval (thermostat program0) \<le> 1000 - lastPoll (thermostat program0)"
    by (simp add: program0_fields)
  have "adcReads (sensor (Thermostat_loop (steady 2048) 1000 program0)) = 3"
    by (simp add: loop_poll [OF i] program0_fields)
  moreover have "last (1000 # ticks99) - 1000 < interval (thermostat program0)"
    by (simp only: ticks99_facts program0_fields simp_thms)
  ultimately show ?thesis
    by (simp only: run_ticks_program0 program0_fields ticks99_facts simp_thms)
qed

end
